theory Spec2Isabelle
  imports Complex_Main
begin

section \<open>The store: rows of the three tables\<close>

text \<open>
  The backend of \<^verbatim>\<open>src/app.py\<close> keeps three SQLite tables. A row is a record with
  the columns of its \<^verbatim>\<open>CREATE TABLE\<close> statement, a table the list of its rows in rowid
  order. The \<^verbatim>\<open>created_at\<close> timestamps are left out: none of the handlers modelled
  below reads them. The \<^verbatim>\<open>REAL\<close> column \<^verbatim>\<open>probability\<close> holds exact rationals
  here, \<^verbatim>\<open>INTEGER\<close> columns hold unbounded integers, \<^verbatim>\<open>TEXT\<close> columns strings.
\<close>

record user =
  u_id :: int
  u_username :: string
  u_email :: string
  u_password_hash :: string
  u_tokens :: int

record market =
  m_id :: int
  m_question :: string
  m_description :: string
  m_category :: string
  m_resolution_date :: string
  m_status :: string

record forecast =
  f_id :: int
  f_user_id :: int
  f_market_id :: int
  f_probability :: rat
  f_tokens_spent :: int
  f_reward :: int

record db =
  users :: "user list"
  markets :: "market list"
  forecasts :: "forecast list"

section \<open>Requests and responses\<close>

text \<open>
  A JSON value as \<^verbatim>\<open>request.get_json()\<close> delivers it; \<open>JNull\<close> also stands for a key
  that \<^verbatim>\<open>data.get\<close> does not find. \<open>truthy\<close> is Python's truth value, which
  \<^verbatim>\<open>all([...])\<close> tests.
\<close>

datatype json =
    JNull
  | JBool bool
  | JNum rat
  | JStr string
  | JArr "json list"
  | JObj "(string \<times> json) list"

fun truthy :: "json \<Rightarrow> bool" where
  "truthy JNull = False"
| "truthy (JBool b) = b"
| "truthy (JNum n) = (n \<noteq> 0)"
| "truthy (JStr s) = (s \<noteq> [])"
| "truthy (JArr xs) = (xs \<noteq> [])"
| "truthy (JObj kvs) = (kvs \<noteq> [])"

text \<open>
  The body of \<^verbatim>\<open>POST /api/forecast\<close>: the market id is an integer and the
  probability a number, \<open>None\<close> where the key is missing or null.
\<close>

record forecast_request =
  fr_market_id :: "int option"
  fr_probability :: "rat option"

text \<open>The body of \<^verbatim>\<open>POST /api/admin/resolve-market\<close>.\<close>

record resolve_request =
  rr_market_id :: "int option"
  rr_outcome :: json

datatype body =
    Error string
  | Message string
  | Submitted string int
  | MarketDetail market int nat
  | Unhandled string

type_synonym response = "nat \<times> body"

section \<open>Python's numeric built-ins\<close>

text \<open>\<^verbatim>\<open>int(x)\<close> on a number cuts the fraction off, towards zero.\<close>

definition py_int :: "rat \<Rightarrow> int" where
  "py_int x = (if 0 \<le> x then \<lfloor>x\<rfloor> else \<lceil>x\<rceil>)"

text \<open>
  \<^verbatim>\<open>round(x, 0)\<close> yields the whole number nearest to \<open>x\<close>; a value half way between
  two whole numbers goes to the even one.
\<close>

definition py_round :: "rat \<Rightarrow> int" where
  "py_round x =
     (let fl = \<lfloor>x\<rfloor>; d = x - of_int fl
      in if d < 1 / 2 then fl
         else if 1 / 2 < d then fl + 1
         else if even fl then fl else fl + 1)"

section \<open>Helper functions of the backend\<close>





section \<open>Handlers\<close>


text \<open>
  The id SQLite gives an inserted row of an \<^verbatim>\<open>AUTOINCREMENT\<close> table from which no
  row is ever deleted: one more than the largest id in the table, 1 for an empty table.
\<close>

definition next_rowid :: "int list \<Rightarrow> int" where
  "next_rowid ids = fold max ids 0 + 1"

text \<open>
  \<^verbatim>\<open>POST /api/forecast\<close> under its \<^verbatim>\<open>login_required\<close> decorator. The first
  argument is the session's \<^verbatim>\<open>user_id\<close>, \<open>None\<close> without a login. When the
  session names a user with no row, \<^verbatim>\<open>user['tokens']\<close> raises before anything is
  written: the response is the framework's 500.
\<close>

definition tokens_cost :: int where
  "tokens_cost = 10"

definition submit_forecast :: "int option \<Rightarrow> forecast_request \<Rightarrow> db \<Rightarrow> response \<times> db" where
  "submit_forecast session req d =
     (case session of
        None \<Rightarrow> ((401, Error ''Authentication required''), d)
      | Some user_id \<Rightarrow>
     (case (fr_market_id req, fr_probability req) of
        (None, _) \<Rightarrow> ((400, Error ''Market ID and probability required''), d)
      | (Some market_id, None) \<Rightarrow> ((400, Error ''Market ID and probability required''), d)
      | (Some market_id, Some probability) \<Rightarrow>
          if market_id = 0 then ((400, Error ''Market ID and probability required''), d)
          else if \<not> (0 \<le> probability \<and> probability \<le> 100)
          then ((400, Error ''Probability must be between 0 and 100''), d)
          else
     (case find (\<lambda>m. m_id m = market_id) (markets d) of
        None \<Rightarrow> ((404, Error ''Market not found''), d)
      | Some market \<Rightarrow>
          if m_status market \<noteq> ''active''
          then ((400, Error ''Market is not active''), d)
          else
     (case find (\<lambda>u. u_id u = user_id) (users d) of
        None \<Rightarrow> ((500, Unhandled ''TypeError''), d)
      | Some user \<Rightarrow>
          if u_tokens user < tokens_cost
          then ((400, Error ''Insufficient tokens''), d)
          else
            (let forecast_id = next_rowid (map f_id (forecasts d));
                 row = \<lparr>f_id = forecast_id, f_user_id = user_id, f_market_id = market_id,
                        f_probability = probability, f_tokens_spent = tokens_cost,
                        f_reward = 0\<rparr>
             in ((201, Submitted ''Forecast submitted successfully'' forecast_id),
                 d\<lparr>forecasts := forecasts d @ [row],
                   users := map (\<lambda>u. if u_id u = user_id
                                       then u\<lparr>u_tokens := u_tokens u - tokens_cost\<rparr>
                                       else u) (users d)\<rparr>))))))"

text \<open>
  The body of the loop of \<^verbatim>\<open>resolve_market\<close>: the reward of one forecast.
\<close>

definition forecast_reward :: "json \<Rightarrow> forecast \<Rightarrow> int" where
  "forecast_reward outcome f =
     (let accuracy = (if outcome = JStr ''yes'' then f_probability f
                      else 100 - f_probability f)
      in py_int (accuracy * (1 / 2)))"

text \<open>
  The loop itself, over the rows fetched before it starts: each round runs the two
  \<^verbatim>\<open>UPDATE\<close> statements on the tables as they are by then.
\<close>

fun pay_rewards :: "json \<Rightarrow> forecast list \<Rightarrow> forecast list \<times> user list
                    \<Rightarrow> forecast list \<times> user list" where
  "pay_rewards outcome [] (fs, us) = (fs, us)"
| "pay_rewards outcome (f # rest) (fs, us) =
     (let reward = forecast_reward outcome f
      in pay_rewards outcome rest
           (map (\<lambda>g. if f_id g = f_id f then g\<lparr>f_reward := reward\<rparr> else g) fs,
            map (\<lambda>u. if u_id u = f_user_id f then u\<lparr>u_tokens := u_tokens u + reward\<rparr> else u)
              us))"

text \<open>\<^verbatim>\<open>POST /api/admin/resolve-market\<close>.\<close>

definition resolve_market :: "resolve_request \<Rightarrow> db \<Rightarrow> response \<times> db" where
  "resolve_market req d =
     (case rr_market_id req of
        None \<Rightarrow> ((400, Error ''Market ID and outcome required''), d)
      | Some market_id \<Rightarrow>
          if market_id = 0 \<or> \<not> truthy (rr_outcome req)
          then ((400, Error ''Market ID and outcome required''), d)
          else
            (let ms = map (\<lambda>m. if m_id m = market_id then m\<lparr>m_status := ''resolved''\<rparr> else m)
                        (markets d);
                 selected = filter (\<lambda>f. f_market_id f = market_id) (forecasts d);
                 (fs, us) = pay_rewards (rr_outcome req) selected (forecasts d, users d)
             in ((200, Message ''Market resolved successfully''),
                 d\<lparr>users := us, markets := ms, forecasts := fs\<rparr>)))"

section \<open>Sequences of requests\<close>

text \<open>
  The two handlers that write to the forecasts and markets tables, served one after
  the other. (Signup inserts a user row with the default balance; the other
  handlers only read.)
\<close>

datatype request =
    Submit "int option" forecast_request
  | Resolve resolve_request

fun handle :: "request \<Rightarrow> db \<Rightarrow> response \<times> db" where
  "handle (Submit session req) d = submit_forecast session req d"
| "handle (Resolve req) d = resolve_market req d"

fun run :: "request list \<Rightarrow> db \<Rightarrow> db" where
  "run [] d = d"
| "run (r # rs) d = run rs (snd (handle r d))"

section \<open>Notions of the specification\<close>



text \<open>
  Properties of a store that every request keeps: the primary key of the forecasts
  table, probabilities within 0 and 100, and a reward of zero on every forecast
  whose market is not resolved.
\<close>

definition forecast_ids_distinct :: "db \<Rightarrow> bool" where
  "forecast_ids_distinct d \<longleftrightarrow> distinct (map f_id (forecasts d))"

definition probabilities_in_range :: "db \<Rightarrow> bool" where
  "probabilities_in_range d \<longleftrightarrow>
     (\<forall>f \<in> set (forecasts d). 0 \<le> f_probability f \<and> f_probability f \<le> 100)"

definition unresolved_unrewarded :: "db \<Rightarrow> bool" where
  "unresolved_unrewarded d \<longleftrightarrow>
     (\<forall>f \<in> set (forecasts d). \<forall>k \<in> set (markets d).
        m_id k = f_market_id f \<and> m_status k \<noteq> ''resolved'' \<longrightarrow> f_reward f = 0)"

section \<open>An example store\<close>

definition example_db :: db where
  "example_db =
     \<lparr>users =
        [\<lparr>u_id = 1, u_username = ''ann'', u_email = ''ann@example.org'',
          u_password_hash = ''h1'', u_tokens = 980\<rparr>,
         \<lparr>u_id = 2, u_username = ''bob'', u_email = ''bob@example.org'',
          u_password_hash = ''h2'', u_tokens = 990\<rparr>,
         \<lparr>u_id = 3, u_username = ''cyd'', u_email = ''cyd@example.org'',
          u_password_hash = ''h3'', u_tokens = 5\<rparr>],
      markets =
        [\<lparr>m_id = 1, m_question = ''Will Ireland qualify for FIFA 2026?'', m_description = '''',
          m_category = ''Sports'', m_resolution_date = ''2026-06-30'', m_status = ''active''\<rparr>,
         \<lparr>m_id = 2, m_question = ''Will Irish tech startup IPO in 2025?'', m_description = '''',
          m_category = ''Tech'', m_resolution_date = ''2025-12-31'', m_status = ''active''\<rparr>,
         \<lparr>m_id = 3, m_question = ''Will it rain tomorrow?'', m_description = '''',
          m_category = ''Weather'', m_resolution_date = ''2025-01-01'', m_status = ''resolved''\<rparr>],
      forecasts =
        [\<lparr>f_id = 1, f_user_id = 1, f_market_id = 1, f_probability = 80,
          f_tokens_spent = 10, f_reward = 0\<rparr>,
         \<lparr>f_id = 2, f_user_id = 2, f_market_id = 1, f_probability = 25,
          f_tokens_spent = 10, f_reward = 0\<rparr>,
         \<lparr>f_id = 3, f_user_id = 1, f_market_id = 2, f_probability = 61 / 2,
          f_tokens_spent = 10, f_reward = 0\<rparr>,
         \<lparr>f_id = 4, f_user_id = 2, f_market_id = 3, f_probability = 70,
          f_tokens_spent = 10, f_reward = 35\<rparr>]\<rparr>"

definition resolve_yes :: resolve_request where
  "resolve_yes = \<lparr>rr_market_id = Some 1, rr_outcome = JStr ''yes''\<rparr>"

definition resolve_no :: resolve_request where
  "resolve_no = \<lparr>rr_market_id = Some 1, rr_outcome = JStr ''no''\<rparr>"

section \<open>Facts about the example store\<close>

lemma floor_halves: "\<lfloor>25 / 2 :: rat\<rfloor> = 12" "\<lfloor>75 / 2 :: rat\<rfloor> = 37"
  by (simp_all add: floor_eq_iff)

lemma example_db_ok: "forecast_ids_distinct example_db" "unresolved_unrewarded example_db"
  by (simp_all add: forecast_ids_distinct_def unresolved_unrewarded_def example_db_def)

section \<open>The reward loop in closed form\<close>

lemma find_snoc:
  "find P (xs @ [y]) = (case find P xs of None \<Rightarrow> (if P y then Some y else None) | Some x \<Rightarrow> Some x)"
  by (induction xs) auto

lemma find_SomeD: "find P xs = Some x \<Longrightarrow> x \<in> set xs \<and> P x"
  by (induction xs) (auto split: if_splits)

lemma pay_rewards_users:
  "snd (pay_rewards outcome sel (fs, us)) =
     map (\<lambda>u. u\<lparr>u_tokens := u_tokens u +
            sum_list (map (forecast_reward outcome) (filter (\<lambda>f. f_user_id f = u_id u) sel))\<rparr>) us"
proof (induction sel arbitrary: fs us)
  case Nil
  then show ?case by simp
next
  case (Cons f rest)
  show ?case
    by (simp add: Cons.IH Let_def o_def)
qed

lemma pay_rewards_forecasts:
  "fst (pay_rewards outcome sel (fs, us)) =
     map (\<lambda>g. case find (\<lambda>f. f_id f = f_id g) (rev sel) of
                 None \<Rightarrow> g
               | Some f \<Rightarrow> g\<lparr>f_reward := forecast_reward outcome f\<rparr>) fs"
proof (induction sel arbitrary: fs us)
  case Nil
  then show ?case by simp
next
  case (Cons f rest)
  show ?case
    by (simp add: Cons.IH Let_def o_def find_snoc split: option.splits)
qed

lemma find_own_row:
  assumes "distinct (map f_id fs)" and "g \<in> set fs"
  shows "find (\<lambda>f. f_id f = f_id g) (rev (filter P fs)) = (if P g then Some g else None)"
proof (cases "P g")
  case True
  then have "\<exists>x. x \<in> set (rev (filter P fs)) \<and> f_id x = f_id g"
    using assms(2) by auto
  then obtain x where x: "find (\<lambda>f. f_id f = f_id g) (rev (filter P fs)) = Some x"
    by (cases "find (\<lambda>f. f_id f = f_id g) (rev (filter P fs))") (auto simp: find_None_iff)
  then have "x \<in> set fs" "f_id x = f_id g"
    by (auto dest: find_SomeD)
  then have "x = g"
    using assms by (meson distinct_map inj_onD)
  with x True show ?thesis by simp
next
  case False
  have "\<not> (\<exists>x. x \<in> set (rev (filter P fs)) \<and> f_id x = f_id g)"
  proof
    assume "\<exists>x. x \<in> set (rev (filter P fs)) \<and> f_id x = f_id g"
    then obtain x where "x \<in> set fs" "P x" "f_id x = f_id g" by auto
    then have "x = g" using assms by (meson distinct_map inj_onD)
    with \<open>P x\<close> False show False by simp
  qed
  then show ?thesis using False by (simp add: find_None_iff)
qed

lemma pay_rewards_selected:
  assumes "distinct (map f_id fs)"
  shows "fst (pay_rewards outcome (filter P fs) (fs, us)) =
           map (\<lambda>g. if P g then g\<lparr>f_reward := forecast_reward outcome g\<rparr> else g) fs"
  unfolding pay_rewards_forecasts
  by (rule map_cong) (simp_all add: find_own_row [OF assms])

lemma resolve_market_response:
  assumes "rr_market_id req = Some m" "m \<noteq> 0" "truthy (rr_outcome req)"
  shows "fst (resolve_market req d) = (200, Message ''Market resolved successfully'')"
  using assms by (simp add: resolve_market_def Let_def split: prod.splits)

lemma resolve_market_markets:
  assumes "rr_market_id req = Some m" "m \<noteq> 0" "truthy (rr_outcome req)"
  shows "markets (snd (resolve_market req d)) =
           map (\<lambda>k. if m_id k = m then k\<lparr>m_status := ''resolved''\<rparr> else k) (markets d)"
  using assms by (simp add: resolve_market_def Let_def split: prod.splits)

lemma resolve_market_forecasts:
  assumes "rr_market_id req = Some m" "m \<noteq> 0" "truthy (rr_outcome req)"
    and "distinct (map f_id (forecasts d))"
  shows "forecasts (snd (resolve_market req d)) =
           map (\<lambda>f. if f_market_id f = m
                     then f\<lparr>f_reward := forecast_reward (rr_outcome req) f\<rparr> else f)
             (forecasts d)"
proof -
  have "forecasts (snd (resolve_market req d)) =
          fst (pay_rewards (rr_outcome req) (filter (\<lambda>f. f_market_id f = m) (forecasts d))
                 (forecasts d, users d))"
    using assms(1-3) by (simp add: resolve_market_def Let_def split: prod.splits)
  then show ?thesis
    by (simp add: pay_rewards_selected [OF assms(4)])
qed

lemma resolve_market_users:
  assumes "rr_market_id req = Some m" "m \<noteq> 0" "truthy (rr_outcome req)"
  shows "users (snd (resolve_market req d)) =
           map (\<lambda>u. u\<lparr>u_tokens := u_tokens u +
                  sum_list (map (forecast_reward (rr_outcome req))
                    (filter (\<lambda>f. f_user_id f = u_id u)
                       (filter (\<lambda>f. f_market_id f = m) (forecasts d))))\<rparr>)
             (users d)"
proof -
  have "users (snd (resolve_market req d)) =
          snd (pay_rewards (rr_outcome req) (filter (\<lambda>f. f_market_id f = m) (forecasts d))
                 (forecasts d, users d))"
    using assms(1-3) by (simp add: resolve_market_def Let_def split: prod.splits)
  then show ?thesis
    by (simp only: pay_rewards_users)
qed

section \<open>Rewards\<close>







text \<open>
  C3. One accepted call of \<open>resolve_market\<close> for the market id \<open>m\<close> answers 200, sets
  the status of the market \<open>m\<close> to \<^verbatim>\<open>'resolved'\<close> and leaves every other market as it
  was; writes to every forecast on \<open>m\<close> its reward and leaves every other forecast as it
  was; and adds to the balance of every user the rewards of that user's forecasts on
  \<open>m\<close>, leaving the users without a forecast on \<open>m\<close> as they were. The forecast ids
  are distinct, as the primary key of the table makes them.
\<close>

theorem resolve_market_effects:
  assumes "rr_market_id req = Some m" "m \<noteq> 0" "truthy (rr_outcome req)"
    and "distinct (map f_id (forecasts d))"
  shows "fst (resolve_market req d) = (200, Message ''Market resolved successfully'') \<and>
         markets (snd (resolve_market req d)) =
           map (\<lambda>k. if m_id k = m then k\<lparr>m_status := ''resolved''\<rparr> else k) (markets d) \<and>
         forecasts (snd (resolve_market req d)) =
           map (\<lambda>f. if f_market_id f = m
                     then f\<lparr>f_reward := forecast_reward (rr_outcome req) f\<rparr> else f)
             (forecasts d) \<and>
         users (snd (resolve_market req d)) =
           map (\<lambda>u. if \<exists>f \<in> set (forecasts d). f_market_id f = m \<and> f_user_id f = u_id u
                     then u\<lparr>u_tokens := u_tokens u +
                            sum_list (map (forecast_reward (rr_outcome req))
                              (filter (\<lambda>f. f_market_id f = m \<and> f_user_id f = u_id u)
                                 (forecasts d)))\<rparr>
                     else u)
             (users d)"
proof -
  let ?mine = "\<lambda>u. filter (\<lambda>f. f_market_id f = m \<and> f_user_id f = u_id u) (forecasts d)"
  have none: "?mine u = []"
    if "\<not> (\<exists>f \<in> set (forecasts d). f_market_id f = m \<and> f_user_id f = u_id u)" for u
    using that by (auto simp: filter_empty_conv)
  have row: "u\<lparr>u_tokens := u_tokens u + sum_list (map (forecast_reward (rr_outcome req)) (?mine u))\<rparr> =
          (if \<exists>f \<in> set (forecasts d). f_market_id f = m \<and> f_user_id f = u_id u
           then u\<lparr>u_tokens := u_tokens u + sum_list (map (forecast_reward (rr_outcome req)) (?mine u))\<rparr>
           else u)" for u
  proof (cases "\<exists>f \<in> set (forecasts d). f_market_id f = m \<and> f_user_id f = u_id u")
    case True
    then show ?thesis by (simp only: if_True)
  next
    case False
    then show ?thesis by (simp only: none [OF False] if_False) simp
  qed
  have "users (snd (resolve_market req d)) =
          map (\<lambda>u. u\<lparr>u_tokens := u_tokens u + sum_list (map (forecast_reward (rr_outcome req)) (?mine u))\<rparr>)
            (users d)"
    by (simp only: resolve_market_users [OF assms(1-3)] filter_filter)
  also have "\<dots> = map (\<lambda>u. if \<exists>f \<in> set (forecasts d). f_market_id f = m \<and> f_user_id f = u_id u
                     then u\<lparr>u_tokens := u_tokens u +
                            sum_list (map (forecast_reward (rr_outcome req)) (?mine u))\<rparr>
                     else u)
             (users d)"
    by (rule map_cong [OF refl]) (rule row)
  finally have us: "users (snd (resolve_market req d)) =
          map (\<lambda>u. if \<exists>f \<in> set (forecasts d). f_market_id f = m \<and> f_user_id f = u_id u
                     then u\<lparr>u_tokens := u_tokens u +
                            sum_list (map (forecast_reward (rr_outcome req)) (?mine u))\<rparr>
                     else u)
             (users d)" .
  show ?thesis
    using resolve_market_response [OF assms(1-3)] resolve_market_markets [OF assms(1-3)]
      resolve_market_forecasts [OF assms] us
    by blast
qed

theorem resolve_market_effects_witness:
  "fst (resolve_market resolve_yes example_db) = (200, Message ''Market resolved successfully'') \<and>
   map m_status (markets (snd (resolve_market resolve_yes example_db))) =
     [''resolved'', ''active'', ''resolved''] \<and>
   map f_reward (forecasts (snd (resolve_market resolve_yes example_db))) = [40, 12, 0, 35] \<and>
   map u_tokens (users (snd (resolve_market resolve_yes example_db))) = [1020, 1002, 5]"
proof -
  have h: "rr_market_id resolve_yes = Some 1" "(1::int) \<noteq> 0" "truthy (rr_outcome resolve_yes)"
    "distinct (map f_id (forecasts example_db))"
    by (simp_all add: resolve_yes_def example_db_def)
  have fl: "\<lfloor>25 / 2 :: rat\<rfloor> = 12" by (simp add: floor_eq_iff)
  from resolve_market_effects [OF h] show ?thesis
    by (simp add: resolve_yes_def example_db_def forecast_reward_def py_int_def fl)
qed





section \<open>Rounding, crowd prediction and user accuracy\<close>







lemma py_round_tie_even:
  "x - of_int \<lfloor>x\<rfloor> = 1 / 2 \<Longrightarrow> even (py_round x)"
  by (simp add: py_round_def Let_def)









section \<open>What every request keeps\<close>

lemma fold_max_upper: "x \<in> set ids \<Longrightarrow> x \<le> fold max ids (a::int)"
proof (induction ids arbitrary: a)
  case Nil
  then show ?case by simp
next
  case (Cons y ys)
  have mono: "b \<le> fold max ys b" for b :: int
    by (induction ys arbitrary: b) (auto intro: order_trans [OF max.cobounded2])
  show ?case
  proof (cases "x = y")
    case True
    have "y \<le> max y a" by simp
    also have "\<dots> \<le> fold max ys (max y a)" by (rule mono)
    finally show ?thesis using True by simp
  next
    case False
    with Cons.prems have "x \<in> set ys" by simp
    from Cons.IH [OF this] show ?thesis by simp
  qed
qed

lemma next_rowid_fresh: "next_rowid ids \<notin> set ids"
proof
  assume "next_rowid ids \<in> set ids"
  from fold_max_upper [OF this, of 0] show False
    by (simp add: next_rowid_def)
qed

lemma submit_forecast_cases:
  "snd (submit_forecast session req d) = d \<or>
   (\<exists>user_id market_id probability user market.
      session = Some user_id \<and> fr_market_id req = Some market_id \<and>
      fr_probability req = Some probability \<and> market_id \<noteq> 0 \<and>
      0 \<le> probability \<and> probability \<le> 100 \<and>
      find (\<lambda>m. m_id m = market_id) (markets d) = Some market \<and>
      m_status market = ''active'' \<and>
      find (\<lambda>u. u_id u = user_id) (users d) = Some user \<and>
      tokens_cost \<le> u_tokens user \<and>
      submit_forecast session req d =
        ((201, Submitted ''Forecast submitted successfully'' (next_rowid (map f_id (forecasts d)))),
         d\<lparr>forecasts := forecasts d @
              [\<lparr>f_id = next_rowid (map f_id (forecasts d)), f_user_id = user_id,
                f_market_id = market_id, f_probability = probability,
                f_tokens_spent = tokens_cost, f_reward = 0\<rparr>],
           users := map (\<lambda>u. if u_id u = user_id
                               then u\<lparr>u_tokens := u_tokens u - tokens_cost\<rparr> else u)
                      (users d)\<rparr>))"
  by (auto simp: submit_forecast_def Let_def split: option.splits)

lemma submit_forecast_keeps_ids:
  assumes "forecast_ids_distinct d"
  shows "forecast_ids_distinct (snd (submit_forecast session req d))"
  using submit_forecast_cases [of session req d] assms
    next_rowid_fresh [of "map f_id (forecasts d)"]
  by (auto simp: forecast_ids_distinct_def)

lemma submit_forecast_keeps_range:
  assumes "probabilities_in_range d"
  shows "probabilities_in_range (snd (submit_forecast session req d))"
  using submit_forecast_cases [of session req d] assms
  by (auto simp: probabilities_in_range_def)

lemma submit_forecast_keeps_unrewarded:
  assumes "unresolved_unrewarded d"
  shows "unresolved_unrewarded (snd (submit_forecast session req d))"
  using submit_forecast_cases [of session req d]
proof (elim disjE exE conjE)
  assume "snd (submit_forecast session req d) = d"
  with assms show ?thesis by simp
next
  fix user_id market_id probability user market
  assume eq: "submit_forecast session req d =
        ((201, Submitted ''Forecast submitted successfully'' (next_rowid (map f_id (forecasts d)))),
         d\<lparr>forecasts := forecasts d @
              [\<lparr>f_id = next_rowid (map f_id (forecasts d)), f_user_id = user_id,
                f_market_id = market_id, f_probability = probability,
                f_tokens_spent = tokens_cost, f_reward = 0\<rparr>],
           users := map (\<lambda>u. if u_id u = user_id
                               then u\<lparr>u_tokens := u_tokens u - tokens_cost\<rparr> else u)
                      (users d)\<rparr>)"
  show ?thesis
    using assms by (auto simp: eq unresolved_unrewarded_def)
qed

lemma pay_rewards_ids:
  "map f_id (fst (pay_rewards outcome sel (fs, us))) = map f_id fs"
proof (induction sel arbitrary: fs us)
  case Nil
  show ?case by simp
next
  case (Cons a sel)
  let ?upd = "\<lambda>g. if f_id g = f_id a then g\<lparr>f_reward := forecast_reward outcome a\<rparr> else g"
  have "map f_id (map ?upd fs) = map f_id fs"
    by (induction fs) simp_all
  then show ?case
    by (simp add: Let_def Cons.IH del: map_map)
qed

lemma resolve_market_cases:
  "resolve_market req d = ((400, Error ''Market ID and outcome required''), d) \<or>
   (\<exists>m. rr_market_id req = Some m \<and> m \<noteq> 0 \<and> truthy (rr_outcome req))"
  by (auto simp: resolve_market_def split: option.splits)

lemma resolve_market_keeps_ids:
  assumes "forecast_ids_distinct d"
  shows "forecast_ids_distinct (snd (resolve_market req d))"
  using resolve_market_cases [of req d]
proof (elim disjE exE conjE)
  assume "resolve_market req d = ((400, Error ''Market ID and outcome required''), d)"
  with assms show ?thesis by simp
next
  fix m
  assume v: "rr_market_id req = Some m" "m \<noteq> 0" "truthy (rr_outcome req)"
  have dist: "distinct (map f_id (forecasts d))"
    using assms by (simp add: forecast_ids_distinct_def)
  show ?thesis
    using dist
    by (simp add: forecast_ids_distinct_def resolve_market_forecasts [OF v dist] o_def if_distrib
          cong: if_cong)
qed

lemma resolve_market_keeps_range:
  assumes "forecast_ids_distinct d" "probabilities_in_range d"
  shows "probabilities_in_range (snd (resolve_market req d))"
  using resolve_market_cases [of req d]
proof (elim disjE exE conjE)
  assume "resolve_market req d = ((400, Error ''Market ID and outcome required''), d)"
  with assms show ?thesis by simp
next
  fix m
  assume v: "rr_market_id req = Some m" "m \<noteq> 0" "truthy (rr_outcome req)"
  have dist: "distinct (map f_id (forecasts d))"
    using assms(1) by (simp add: forecast_ids_distinct_def)
  show ?thesis
    using assms(2)
    by (auto simp: probabilities_in_range_def resolve_market_forecasts [OF v dist])
qed

lemma resolve_market_keeps_unrewarded:
  assumes "forecast_ids_distinct d" "unresolved_unrewarded d"
  shows "unresolved_unrewarded (snd (resolve_market req d))"
  using resolve_market_cases [of req d]
proof (elim disjE exE conjE)
  assume "resolve_market req d = ((400, Error ''Market ID and outcome required''), d)"
  with assms show ?thesis by simp
next
  fix m
  assume v: "rr_market_id req = Some m" "m \<noteq> 0" "truthy (rr_outcome req)"
  have dist: "distinct (map f_id (forecasts d))"
    using assms(1) by (simp add: forecast_ids_distinct_def)
  show ?thesis
    using assms(2)
    by (auto simp: unresolved_unrewarded_def resolve_market_forecasts [OF v dist]
          resolve_market_markets [OF v] split: if_splits)
qed

lemma handle_keeps_ids:
  "forecast_ids_distinct d \<Longrightarrow> forecast_ids_distinct (snd (handle r d))"
  by (cases r) (simp_all add: submit_forecast_keeps_ids resolve_market_keeps_ids)

lemma run_keeps_ids:
  "forecast_ids_distinct d \<Longrightarrow> forecast_ids_distinct (run rs d)"
  by (induction rs arbitrary: d) (simp_all add: handle_keeps_ids)

lemma run_keeps_range:
  assumes "forecast_ids_distinct d" "probabilities_in_range d"
  shows "probabilities_in_range (run rs d)"
  using assms
proof (induction rs arbitrary: d)
  case Nil
  then show ?case by simp
next
  case (Cons r rs)
  have "probabilities_in_range (snd (handle r d))"
    using Cons.prems
    by (cases r) (simp_all add: submit_forecast_keeps_range resolve_market_keeps_range)
  with Cons.IH [OF handle_keeps_ids [OF Cons.prems(1)]] show ?case by simp
qed

lemma run_keeps_unrewarded:
  assumes "forecast_ids_distinct d" "unresolved_unrewarded d"
  shows "unresolved_unrewarded (run rs d)"
  using assms
proof (induction rs arbitrary: d)
  case Nil
  then show ?case by simp
next
  case (Cons r rs)
  have "unresolved_unrewarded (snd (handle r d))"
    using Cons.prems
    by (cases r) (simp_all add: submit_forecast_keeps_unrewarded resolve_market_keeps_unrewarded)
  with Cons.IH [OF handle_keeps_ids [OF Cons.prems(1)]] show ?case by simp
qed

lemma rewards_after_update:
  "map (forecast_reward outcome)
     (filter (\<lambda>f. f_market_id f = m \<and> f_user_id f = x)
        (map (\<lambda>f. if f_market_id f = m then f\<lparr>f_reward := r f\<rparr> else f) fs)) =
   map (forecast_reward outcome) (filter (\<lambda>f. f_market_id f = m \<and> f_user_id f = x) fs)"
  by (induction fs) (simp_all add: forecast_reward_def)

text \<open>
  C4, as the code has it. A forecast's reward is zero as long as its market is not
  resolved, after any sequence of requests. Resolution has no guard against being repeated:
  a second accepted resolution of the same market leaves the markets as the first one left
  them (the status stays \<^verbatim>\<open>'resolved'\<close>), but it writes every reward of the market
  again, computed from the second call's outcome, and it credits every forecaster
  again, so that each balance has grown by the rewards of both calls.
\<close>

theorem repeated_resolution:
  assumes "rr_market_id r1 = Some m" "rr_market_id r2 = Some m" "m \<noteq> 0"
    and "truthy (rr_outcome r1)" "truthy (rr_outcome r2)"
    and "forecast_ids_distinct d" and "unresolved_unrewarded d"
  shows "unresolved_unrewarded (run rs d) \<and>
         markets (snd (resolve_market r2 (snd (resolve_market r1 d)))) =
           markets (snd (resolve_market r1 d)) \<and>
         forecasts (snd (resolve_market r2 (snd (resolve_market r1 d)))) =
           map (\<lambda>f. if f_market_id f = m
                     then f\<lparr>f_reward := forecast_reward (rr_outcome r2) f\<rparr> else f)
             (forecasts d) \<and>
         users (snd (resolve_market r2 (snd (resolve_market r1 d)))) =
           map (\<lambda>u. u\<lparr>u_tokens := u_tokens u +
                  sum_list (map (forecast_reward (rr_outcome r1))
                    (filter (\<lambda>f. f_market_id f = m \<and> f_user_id f = u_id u) (forecasts d))) +
                  sum_list (map (forecast_reward (rr_outcome r2))
                    (filter (\<lambda>f. f_market_id f = m \<and> f_user_id f = u_id u) (forecasts d)))\<rparr>)
             (users d)"
proof -
  let ?d1 = "snd (resolve_market r1 d)"
  let ?d2 = "snd (resolve_market r2 ?d1)"
  have v1: "rr_market_id r1 = Some m" "m \<noteq> 0" "truthy (rr_outcome r1)"
    and v2: "rr_market_id r2 = Some m" "m \<noteq> 0" "truthy (rr_outcome r2)"
    using assms by simp_all
  have dist: "distinct (map f_id (forecasts d))"
    using assms(6) by (simp add: forecast_ids_distinct_def)
  have dist1: "distinct (map f_id (forecasts ?d1))"
    using resolve_market_keeps_ids [OF assms(6), of r1] by (simp add: forecast_ids_distinct_def)
  note f1 = resolve_market_forecasts [OF v1 dist]
  have a: "unresolved_unrewarded (run rs d)"
    by (rule run_keeps_unrewarded [OF assms(6,7)])
  have b: "markets ?d2 = markets ?d1"
    by (simp add: resolve_market_markets [OF v2] resolve_market_markets [OF v1] o_def)
  have c: "forecasts ?d2 =
           map (\<lambda>f. if f_market_id f = m
                     then f\<lparr>f_reward := forecast_reward (rr_outcome r2) f\<rparr> else f)
             (forecasts d)"
    unfolding resolve_market_forecasts [OF v2 dist1] f1
    by (simp add: o_def forecast_reward_def)
  have e: "users ?d2 =
           map (\<lambda>u. u\<lparr>u_tokens := u_tokens u +
                  sum_list (map (forecast_reward (rr_outcome r1))
                    (filter (\<lambda>f. f_market_id f = m \<and> f_user_id f = u_id u) (forecasts d))) +
                  sum_list (map (forecast_reward (rr_outcome r2))
                    (filter (\<lambda>f. f_market_id f = m \<and> f_user_id f = u_id u) (forecasts d)))\<rparr>)
             (users d)"
    unfolding resolve_market_users [OF v2] resolve_market_users [OF v1] f1 filter_filter
      rewards_after_update
    by (simp add: o_def)
  from a b c e show ?thesis by blast
qed

text \<open>
  C4 as stated fails: resolving market 1 of the example store twice with
  \<^verbatim>\<open>'yes'\<close> pays the two forecasters 40 and 12 tokens a second time, and resolving it
  with \<^verbatim>\<open>'no'\<close> after \<^verbatim>\<open>'yes'\<close> overwrites the rewards 40 and 12 with 10 and 37.
\<close>

theorem repeated_resolution_counterexample:
  "m_status (markets example_db ! 0) = ''active'' \<and>
   map f_reward (forecasts (snd (resolve_market resolve_yes example_db))) = [40, 12, 0, 35] \<and>
   map u_tokens (users (snd (resolve_market resolve_yes example_db))) = [1020, 1002, 5] \<and>
   map u_tokens (users (snd (resolve_market resolve_yes
                               (snd (resolve_market resolve_yes example_db))))) = [1060, 1014, 5] \<and>
   map f_reward (forecasts (snd (resolve_market resolve_no
                                  (snd (resolve_market resolve_yes example_db))))) = [10, 37, 0, 35]"
  by (simp add: resolve_market_def resolve_yes_def resolve_no_def example_db_def
        forecast_reward_def py_int_def floor_halves)

theorem repeated_resolution_witness:
  "forecast_ids_distinct example_db \<and> unresolved_unrewarded example_db \<and>
   unresolved_unrewarded
     (run [Submit (Some 2) \<lparr>fr_market_id = Some 2, fr_probability = Some 40\<rparr>,
           Resolve resolve_yes] example_db) \<and>
   map f_reward (forecasts (snd (resolve_market resolve_no
                                  (snd (resolve_market resolve_yes example_db))))) = [10, 37, 0, 35] \<and>
   map u_tokens (users (snd (resolve_market resolve_no
                               (snd (resolve_market resolve_yes example_db))))) = [1030, 1039, 5]"
proof -
  have h: "rr_market_id resolve_yes = Some 1" "rr_market_id resolve_no = Some 1" "(1::int) \<noteq> 0"
    "truthy (rr_outcome resolve_yes)" "truthy (rr_outcome resolve_no)"
    by (simp_all add: resolve_yes_def resolve_no_def)
  from repeated_resolution [OF h example_db_ok,
      of "[Submit (Some 2) \<lparr>fr_market_id = Some 2, fr_probability = Some 40\<rparr>, Resolve resolve_yes]"]
    example_db_ok
  show ?thesis
    by (simp add: resolve_yes_def resolve_no_def example_db_def forecast_reward_def py_int_def
          floor_halves)
qed

section \<open>Forecast submission and unknown markets\<close>



text \<open>
  C5. A logged-in request to submit a forecast whose probability is a number
  below 0 or above 100 is answered with 400 and an error message, and the store is
  returned as it was: no forecast row, no debit.
\<close>

theorem submit_forecast_out_of_range:
  assumes "fr_probability req = Some p" and "p < 0 \<or> 100 < p"
  shows "submit_forecast (Some user_id) req d =
           ((400, Error (if fr_market_id req = None \<or> fr_market_id req = Some 0
                         then ''Market ID and probability required''
                         else ''Probability must be between 0 and 100'')), d)"
  using assms by (auto simp: submit_forecast_def split: option.splits)

theorem submit_forecast_out_of_range_witness:
  "submit_forecast (Some 1) \<lparr>fr_market_id = Some 1, fr_probability = Some 150\<rparr> example_db =
     ((400, Error ''Probability must be between 0 and 100''), example_db) \<and>
   submit_forecast (Some 1) \<lparr>fr_market_id = Some 1, fr_probability = Some (- 1 / 2)\<rparr> example_db =
     ((400, Error ''Probability must be between 0 and 100''), example_db)"
  using submit_forecast_out_of_range
          [of "\<lparr>fr_market_id = Some 1, fr_probability = Some 150\<rparr>" 150 1 example_db]
        submit_forecast_out_of_range
          [of "\<lparr>fr_market_id = Some 1, fr_probability = Some (- 1 / 2)\<rparr>" "- 1 / 2" 1 example_db]
  by simp














end
